theory Spec2Isabelle
  imports Complex_Main "HOL-Library.Log_Nat" "HOL-Library.Word"
begin

text \<open>
  A model of \<open>Parallax.js\<close>: the constructor \<open>Parallax\<close> and the methods \<open>init\<close>,
  \<open>parallax\<close>, \<open>doMovement\<close>, \<open>getOffsetPercentage\<close>, \<open>register\<close>, \<open>unregister\<close>
  and \<open>handleRegisters\<close>, as functions on the state they read and write: the window, the
  element and the fields of the object.
\<close>

section \<open>Number values\<close>

text \<open>
  The values of the script are ECMAScript Numbers: binary64 values, the two infinities and
  NaN. A finite Number is given by the rational it denotes, and every arithmetic operation
  rounds its exact result to the nearest binary64 value, ties to even, as IEEE 754
  prescribes. The sign of zero is not represented: a zero divisor counts as \<open>+0\<close>, which
  is what a difference of two equal finite values is.
\<close>

datatype number = Fin rat | PInf | NInf | NaN

subsection \<open>Rounding to binary64\<close>

text \<open>
  \<open>floor_log2 a\<close> is the integer \<open>k\<close> with \<open>2^k <= a < 2^(k+1)\<close> for positive \<open>a\<close>, and
  \<open>pow2 e\<close> is \<open>2^e\<close> for an integer exponent. A positive value is rounded on the grid of
  multiples of \<open>2^e\<close>, where \<open>e\<close> leaves 53 significant bits and is at least \<open>-1074\<close> (the
  subnormal range); a result of \<open>2^1024\<close> or more is an infinity.
\<close>

definition floor_log2 :: "rat \<Rightarrow> int" where
  "floor_log2 a = (if 1 \<le> a then bitlen \<lfloor>a\<rfloor> - 1 else - bitlen (\<lceil>1 / a\<rceil> - 1))"

definition pow2 :: "int \<Rightarrow> rat" where
  "pow2 e = (if 0 \<le> e then 2 ^ nat e else 1 / 2 ^ nat (- e))"

definition round_half_even :: "rat \<Rightarrow> int" where
  "round_half_even x =
     (let f = \<lfloor>x\<rfloor>; d = x - of_int f
      in if d < 1 / 2 then f else if 1 / 2 < d then f + 1 else if even f then f else f + 1)"

definition round_pos :: "rat \<Rightarrow> rat" where
  "round_pos a =
     (let e = max (floor_log2 a - 52) (- 1074)
      in of_int (round_half_even (a / pow2 e)) * pow2 e)"

definition round64 :: "rat \<Rightarrow> number" where
  "round64 q =
     (if q = 0 then Fin 0
      else if 0 < q then (if pow2 1024 \<le> round_pos q then PInf else Fin (round_pos q))
      else (if pow2 1024 \<le> round_pos (- q) then NInf else Fin (- round_pos (- q))))"

text \<open>The rationals that are binary64 values: rounding leaves them as they are.\<close>

definition is_double :: "rat \<Rightarrow> bool" where
  "is_double q = (round64 q = Fin q)"

definition is_number :: "number \<Rightarrow> bool" where
  "is_number x = (case x of Fin q \<Rightarrow> is_double q | _ \<Rightarrow> True)"

subsection \<open>Arithmetic and comparison\<close>

text \<open>The infinity carrying the sign of a finite value; NaN for zero.\<close>

definition inf_of_sign :: "rat \<Rightarrow> number" where
  "inf_of_sign q = (if 0 < q then PInf else if q < 0 then NInf else NaN)"

fun num_neg :: "number \<Rightarrow> number" where
  "num_neg (Fin a) = Fin (- a)"
| "num_neg PInf = NInf"
| "num_neg NInf = PInf"
| "num_neg NaN = NaN"

fun num_add :: "number \<Rightarrow> number \<Rightarrow> number" where
  "num_add (Fin a) (Fin b) = round64 (a + b)"
| "num_add NaN y = NaN"
| "num_add x NaN = NaN"
| "num_add PInf NInf = NaN"
| "num_add NInf PInf = NaN"
| "num_add PInf y = PInf"
| "num_add x PInf = PInf"
| "num_add NInf y = NInf"
| "num_add x NInf = NInf"

definition num_sub :: "number \<Rightarrow> number \<Rightarrow> number" where
  "num_sub x y = num_add x (num_neg y)"

fun num_mul :: "number \<Rightarrow> number \<Rightarrow> number" where
  "num_mul (Fin a) (Fin b) = round64 (a * b)"
| "num_mul NaN y = NaN"
| "num_mul x NaN = NaN"
| "num_mul PInf (Fin b) = inf_of_sign b"
| "num_mul NInf (Fin b) = inf_of_sign (- b)"
| "num_mul (Fin a) PInf = inf_of_sign a"
| "num_mul (Fin a) NInf = inf_of_sign (- a)"
| "num_mul PInf PInf = PInf"
| "num_mul NInf NInf = PInf"
| "num_mul PInf NInf = NInf"
| "num_mul NInf PInf = NInf"

fun num_div :: "number \<Rightarrow> number \<Rightarrow> number" where
  "num_div (Fin a) (Fin b) = (if b = 0 then inf_of_sign a else round64 (a / b))"
| "num_div NaN y = NaN"
| "num_div x NaN = NaN"
| "num_div (Fin a) PInf = Fin 0"
| "num_div (Fin a) NInf = Fin 0"
| "num_div PInf (Fin b) = (if b < 0 then NInf else PInf)"
| "num_div NInf (Fin b) = (if b < 0 then PInf else NInf)"
| "num_div x y = NaN"

text \<open>The comparison \<open>x < y\<close>; every comparison with NaN is false.\<close>

fun num_less :: "number \<Rightarrow> number \<Rightarrow> bool" where
  "num_less (Fin a) (Fin b) = (a < b)"
| "num_less NInf (Fin b) = True"
| "num_less NInf PInf = True"
| "num_less (Fin a) PInf = True"
| "num_less x y = False"

definition num_greater :: "number \<Rightarrow> number \<Rightarrow> bool" where
  "num_greater x y = num_less y x"

text \<open>The comparison \<open>x <= y\<close>, used to state the boundary cases.\<close>

fun num_le :: "number \<Rightarrow> number \<Rightarrow> bool" where
  "num_le (Fin a) (Fin b) = (a \<le> b)"
| "num_le NaN y = False"
| "num_le x NaN = False"
| "num_le NInf y = True"
| "num_le x PInf = True"
| "num_le x y = False"

text \<open>ToBoolean on a Number: \<open>0\<close> and NaN are falsy.\<close>

fun truthy :: "number \<Rightarrow> bool" where
  "truthy (Fin a) = (a \<noteq> 0)"
| "truthy NaN = False"
| "truthy PInf = True"
| "truthy NInf = True"

text \<open>
  \<open>x || d\<close> on an option of the configuration: an omitted option is \<open>undefined\<close>,
  which is falsy. Reading an option in arithmetic converts \<open>undefined\<close> to NaN.
\<close>

definition or_default :: "number option \<Rightarrow> number \<Rightarrow> number" where
  "or_default x d = (case x of None \<Rightarrow> d | Some v \<Rightarrow> if truthy v then v else d)"

definition or_false :: "bool option \<Rightarrow> bool" where
  "or_false x = (case x of None \<Rightarrow> False | Some b \<Rightarrow> b)"

definition toNumber :: "number option \<Rightarrow> number" where
  "toNumber x = (case x of None \<Rightarrow> NaN | Some v \<Rightarrow> v)"

subsection \<open>Numbers in string concatenation\<close>

fun digits :: "nat \<Rightarrow> string" where
  "digits n = (if n < 10 then [''0123456789'' ! n]
               else digits (n div 10) @ [''0123456789'' ! (n mod 10)])"

declare digits.simps [simp del]

text \<open>
  An integer below \<open>2^53\<close> in magnitude is printed in decimal, and the special values by
  name. For any other Number ECMAScript prints the shortest digits that denote its binary64
  value; \<open>shortest_toString\<close> stands for that string and nothing is known about it.
\<close>

definition shortest_toString :: "rat \<Rightarrow> string" where
  "shortest_toString q = undefined q"

definition toString :: "number \<Rightarrow> string" where
  "toString x =
     (case x of
        NaN \<Rightarrow> ''NaN''
      | PInf \<Rightarrow> ''Infinity''
      | NInf \<Rightarrow> ''-Infinity''
      | Fin q \<Rightarrow>
          if of_int \<lfloor>q\<rfloor> = q \<and> \<bar>q\<bar> < 2 ^ 53
          then (if q < 0 then ''-'' @ digits (nat (- \<lfloor>q\<rfloor>)) else digits (nat \<lfloor>q\<rfloor>))
          else shortest_toString q)"

section \<open>The browser objects the script reads and writes\<close>

text \<open>
  \<open>offsetTop\<close>, \<open>offsetHeight\<close>, \<open>innerHeight\<close> and \<open>innerWidth\<close> are of the type
  \<open>long\<close> of the browser interfaces, a signed integer of 32 bits; \<open>pageYOffset\<close> is a
  finite Number.
\<close>

type_synonym long = "32 word"

definition ofLong :: "long \<Rightarrow> number" where
  "ofLong i = Fin (of_int (sint i))"

record Style =
  backgroundPosition :: string
  transition :: string

record Element =
  offsetTop :: long
  offsetHeight :: long
  style :: Style

text \<open>
  Modelled from the spec: \<open>helpers.throttle\<close> and \<open>helpers.debounce\<close> are not part of the
  source. Each call returns a new function that forwards to the function wrapped, bound to
  the receiver given, at most once per interval (throttle) or once the events have stopped
  (debounce). Only the identity of the function returned is modelled: it is numbered by the
  count of wrappers created before it, which the window record keeps in \<open>closures\<close>. When
  a wrapper forwards a call is outside the script.
\<close>

datatype listener = Throttled nat | Debounced nat

record Window =
  innerHeight :: long
  innerWidth :: long
  pageYOffset :: rat
  listeners :: "(string \<times> listener) list"
  closures :: nat

text \<open>An event target keeps one entry for each pair of event type and callback.\<close>

definition addEventListener :: "string \<Rightarrow> listener \<Rightarrow> Window \<Rightarrow> Window" where
  "addEventListener ev l w =
     (if (ev, l) \<in> set (listeners w) then w
      else w\<lparr>listeners := listeners w @ [(ev, l)]\<rparr>)"

definition removeEventListener :: "string \<Rightarrow> listener \<Rightarrow> Window \<Rightarrow> Window" where
  "removeEventListener ev l w = w\<lparr>listeners := remove1 (ev, l) (listeners w)\<rparr>"

section \<open>The configuration and the Parallax object\<close>

record Config =
  cfg_element :: "Element option"
  cfg_startOffset :: "number option"
  cfg_distance :: "number option"
  cfg_start :: "number option"
  cfg_stop :: "number option"
  cfg_breakpoint :: "number option"
  cfg_throttling :: "number option"
  cfg_cssTrans :: "bool option"

record ParallaxState =
  element :: Element
  startOffset :: number
  distance :: number
  start :: number
  stop :: number
  breakpoint :: number
  throttling :: number
  cssTrans :: bool
  registerMe :: listener

text \<open>The state the methods run in: the window and the object \<open>this\<close>.\<close>

record world =
  window :: Window
  self :: ParallaxState

datatype exception = Throw string

definition set_backgroundPosition :: "string \<Rightarrow> world \<Rightarrow> world" where
  "set_backgroundPosition v st =
     st\<lparr>self := (self st)\<lparr>element := (element (self st))
       \<lparr>style := (style (element (self st)))\<lparr>backgroundPosition := v\<rparr>\<rparr>\<rparr>\<rparr>"

definition set_transition :: "string \<Rightarrow> world \<Rightarrow> world" where
  "set_transition v st =
     st\<lparr>self := (self st)\<lparr>element := (element (self st))
       \<lparr>style := (style (element (self st)))\<lparr>transition := v\<rparr>\<rparr>\<rparr>\<rparr>"

section \<open>The methods\<close>

subsection \<open>getOffsetPercentage\<close>

definition lowerBound :: "world \<Rightarrow> number" where
  "lowerBound st =
     num_add (ofLong (offsetTop (element (self st)))) (ofLong (offsetHeight (element (self st))))"

definition upperBound :: "world \<Rightarrow> number" where
  "upperBound st =
     num_sub (ofLong (offsetTop (element (self st)))) (ofLong (innerHeight (window st)))"

definition range_px :: "world \<Rightarrow> number" where
  "range_px st = num_sub (upperBound st) (lowerBound st)"

definition getOffsetPercentage :: "world \<Rightarrow> number" where
  "getOffsetPercentage st =
     (let scrollTop = Fin (pageYOffset (window st))
      in num_div (num_sub scrollTop (lowerBound st)) (range_px st))"

subsection \<open>doMovement\<close>

text \<open>
  \<open>doMovement_from\<close> is the part of \<open>doMovement\<close> after its conditional, run with the
  variable \<open>relativeOffset\<close> holding the value given; \<open>doMovement\<close> computes that
  variable as the script does and continues with it.
\<close>

definition doMovement_from :: "number \<Rightarrow> world \<Rightarrow> world" where
  "doMovement_from relativeOffset st =
     (let offset = num_sub (startOffset (self st))
                     (num_mul (getOffsetPercentage st) (distance (self st)))
      in set_backgroundPosition (''center '' @ toString offset @ ''px'') st)"

definition doMovement :: "world \<Rightarrow> world" where
  "doMovement st =
     (let relativeOffset = Fin (pageYOffset (window st));
          relativeOffset =
            (if sint (offsetTop (element (self st))) < sint (innerHeight (window st))
             then num_add relativeOffset (ofLong (offsetTop (element (self st))))
             else relativeOffset)
      in doMovement_from relativeOffset st)"

subsection \<open>parallax\<close>

definition parallax :: "world \<Rightarrow> world" where
  "parallax st =
     (let absoluteOffset = Fin (pageYOffset (window st))
      in if num_greater absoluteOffset (start (self st))
            \<and> num_less absoluteOffset (stop (self st))
         then doMovement st
         else st)"

subsection \<open>Listener registration\<close>

definition register :: "world \<Rightarrow> world" where
  "register st =
     st\<lparr>window := addEventListener ''scroll'' (registerMe (self st)) (window st)\<rparr>"

definition unregister :: "world \<Rightarrow> world" where
  "unregister st =
     st\<lparr>window := removeEventListener ''scroll'' (registerMe (self st)) (window st)\<rparr>"

text \<open>The local function \<open>handler\<close> of \<open>handleRegisters\<close>, also run on resize.\<close>

definition handler :: "world \<Rightarrow> world" where
  "handler st =
     (if num_greater (ofLong (innerWidth (window st))) (breakpoint (self st))
      then register st
      else unregister st)"

text \<open>
  \<open>handleRegisters\<close> runs the handler and adds a new debounced wrapper of it as resize
  listener.
\<close>

definition handleRegisters :: "world \<Rightarrow> world" where
  "handleRegisters st =
     (let st1 = handler st;
          w = window st1;
          debounced = Debounced (closures w)
      in st1\<lparr>window := addEventListener ''resize'' debounced (w\<lparr>closures := Suc (closures w)\<rparr>)\<rparr>)"

subsection \<open>init and the constructor\<close>

definition init :: "world \<Rightarrow> world" where
  "init st =
     (let st1 = handleRegisters st;
          st2 = set_backgroundPosition
                  (''center '' @ toString (startOffset (self st1)) @ ''px'') st1;
          st3 = (if cssTrans (self st2)
                 then set_transition
                        (''background-position: ''
                           @ toString (num_div (Fin 1) (throttling (self st2))) @ ''s'') st2
                 else st2)
      in parallax st3)"

text \<open>
  The right-hand sides of the two assignments of the constructor that compute the bounds:
  \<open>cfg.element.offsetTop - window.innerHeight + cfg.start\<close> and
  \<open>cfg.element.offsetTop + cfg.element.offsetHeight\<close>.
\<close>

definition start_bound :: "Window \<Rightarrow> Element \<Rightarrow> number \<Rightarrow> number" where
  "start_bound w el bias =
     num_add (num_sub (ofLong (offsetTop el)) (ofLong (innerHeight w))) bias"

definition stop_bound :: "Element \<Rightarrow> number" where
  "stop_bound el = num_add (ofLong (offsetTop el)) (ofLong (offsetHeight el))"

text \<open>
  The constructor assigns to \<open>cfg.start\<close> and \<open>cfg.stop\<close>, so it returns the
  configuration as it leaves it together with the new object. \<open>cfg1\<close> to \<open>cfg4\<close> are
  the configuration after each of the four assignments; \<open>registerMe\<close> is a new throttled
  wrapper of \<open>parallax\<close>.
\<close>

definition Parallax :: "Window \<Rightarrow> Config \<Rightarrow> exception + (Config \<times> world)" where
  "Parallax w cfg =
     (case cfg_element cfg of
        None \<Rightarrow> Inl (Throw ''parallax: at least element must be given'')
      | Some el \<Rightarrow>
          let cfg1 = cfg\<lparr>cfg_start := Some (or_default (cfg_start cfg) (Fin 0))\<rparr>;
              cfg2 = cfg1\<lparr>cfg_stop := Some (or_default (cfg_stop cfg1) (Fin 0))\<rparr>;
              cfg3 = cfg2\<lparr>cfg_start := Some (start_bound w el (toNumber (cfg_start cfg2)))\<rparr>;
              cfg4 = cfg3\<lparr>cfg_stop := Some (stop_bound el)\<rparr>;
              this = \<lparr>element = el,
                      startOffset = or_default (cfg_startOffset cfg4) (Fin 0),
                      distance = or_default (cfg_distance cfg4) (Fin 200),
                      start = toNumber (cfg_start cfg4),
                      stop = toNumber (cfg_stop cfg4),
                      breakpoint = or_default (cfg_breakpoint cfg4) (Fin 1024),
                      throttling = or_default (cfg_throttling cfg4) (Fin 15),
                      cssTrans = or_false (cfg_cssTrans cfg4),
                      registerMe = Throttled (closures w)\<rparr>
          in Inr (cfg4, init \<lparr>window = w\<lparr>closures := Suc (closures w)\<rparr>, self = this\<rparr>))"

section \<open>Observing a construction\<close>

text \<open>
  What a caller can read off after \<open>new Parallax(cfg)\<close>: the configuration object it passed,
  the bounds and the breakpoint stored in the new object, the background position written to
  the element, and whether the scroll listener of the object is registered.
  \<open>Parallax_twice\<close> is \<open>new Parallax(cfg); new Parallax(cfg)\<close> with one configuration
  object, whose element is the node the first construction has written to.
\<close>

definition config_after :: "exception + (Config \<times> world) \<Rightarrow> Config option" where
  "config_after r = (case r of Inl e \<Rightarrow> None | Inr (cfg, st) \<Rightarrow> Some cfg)"

definition bounds_after :: "exception + (Config \<times> world) \<Rightarrow> (number \<times> number) option" where
  "bounds_after r =
     (case r of Inl e \<Rightarrow> None | Inr (cfg, st) \<Rightarrow> Some (start (self st), stop (self st)))"

definition breakpoint_after :: "exception + (Config \<times> world) \<Rightarrow> number option" where
  "breakpoint_after r = (case r of Inl e \<Rightarrow> None | Inr (cfg, st) \<Rightarrow> Some (breakpoint (self st)))"

definition style_after :: "exception + (Config \<times> world) \<Rightarrow> string option" where
  "style_after r =
     (case r of
        Inl e \<Rightarrow> None
      | Inr (cfg, st) \<Rightarrow> Some (backgroundPosition (style (element (self st)))))"

definition scroll_registered :: "world \<Rightarrow> bool" where
  "scroll_registered st = ((''scroll'', registerMe (self st)) \<in> set (listeners (window st)))"

definition registered_after :: "exception + (Config \<times> world) \<Rightarrow> bool option" where
  "registered_after r = (case r of Inl e \<Rightarrow> None | Inr (cfg, st) \<Rightarrow> Some (scroll_registered st))"

definition Parallax_twice :: "Window \<Rightarrow> Config \<Rightarrow> exception + (Config \<times> world)" where
  "Parallax_twice w cfg =
     (case Parallax w cfg of
        Inl e \<Rightarrow> Inl e
      | Inr (cfg', st) \<Rightarrow> Parallax (window st) (cfg'\<lparr>cfg_element := Some (element (self st))\<rparr>))"

text \<open>The object the constructor hands to \<open>init\<close>, with the arithmetic on integers done.\<close>

definition new_object :: "Window \<Rightarrow> Config \<Rightarrow> Element \<Rightarrow> ParallaxState" where
  "new_object w cfg el =
     \<lparr>element = el,
      startOffset = or_default (cfg_startOffset cfg) (Fin 0),
      distance = or_default (cfg_distance cfg) (Fin 200),
      start = num_add (Fin (of_int (sint (offsetTop el)) - of_int (sint (innerHeight w))))
                (or_default (cfg_start cfg) (Fin 0)),
      stop = Fin (of_int (sint (offsetTop el)) + of_int (sint (offsetHeight el))),
      breakpoint = or_default (cfg_breakpoint cfg) (Fin 1024),
      throttling = or_default (cfg_throttling cfg) (Fin 15),
      cssTrans = or_false (cfg_cssTrans cfg),
      registerMe = Throttled (closures w)\<rparr>"

section \<open>Concrete inputs\<close>

text \<open>
  The example of the specification: an element with \<open>offsetTop = 1000\<close> and
  \<open>offsetHeight = 400\<close> in a viewport with \<open>innerHeight = 800\<close>, scrolled to \<open>s\<close>.
  \<open>example_this\<close> is the object the constructor builds from a configuration that
  supplies the element only.
\<close>

definition example_element :: Element where
  "example_element =
     \<lparr>offsetTop = 1000, offsetHeight = 400,
      style = \<lparr>backgroundPosition = '''', transition = ''''\<rparr>\<rparr>"

definition example_window :: "rat \<Rightarrow> Window" where
  "example_window s =
     \<lparr>innerHeight = 800, innerWidth = 1280, pageYOffset = s, listeners = [], closures = 0\<rparr>"

definition example_cfg :: Config where
  "example_cfg =
     \<lparr>cfg_element = Some example_element, cfg_startOffset = None, cfg_distance = None,
      cfg_start = None, cfg_stop = None, cfg_breakpoint = None, cfg_throttling = None,
      cfg_cssTrans = None\<rparr>"

definition example_this :: ParallaxState where
  "example_this =
     \<lparr>element = example_element, startOffset = Fin 0, distance = Fin 200,
      start = Fin 200, stop = Fin 1400, breakpoint = Fin 1024, throttling = Fin 15,
      cssTrans = False, registerMe = Throttled 0\<rparr>"

definition example_world :: "rat \<Rightarrow> world" where
  "example_world s = \<lparr>window = example_window s, self = example_this\<rparr>"

text \<open>The same at scroll position 800 with \<open>startOffset = -50\<close>.\<close>

definition example_biased :: world where
  "example_biased = (example_world 800)\<lparr>self := example_this\<lparr>startOffset := Fin (- 50)\<rparr>\<rparr>"

text \<open>The example after construction, the window resized to the width \<open>wd\<close>.\<close>

definition example_resized :: "long \<Rightarrow> world" where
  "example_resized wd =
     \<lparr>window = \<lparr>innerHeight = 800, innerWidth = wd, pageYOffset = 0,
                 listeners = [(''scroll'', Throttled 0), (''resize'', Debounced 1)],
                 closures = 2\<rparr>,
      self = example_this\<rparr>"

text \<open>
  A configuration without element, one with a bias of 50 pixels at both ends, and one
  with the breakpoint 0, constructed in a window 500 pixels wide.
\<close>

definition omitted_cfg :: Config where
  "omitted_cfg = example_cfg\<lparr>cfg_element := None\<rparr>"

definition biased_cfg :: Config where
  "biased_cfg = example_cfg\<lparr>cfg_start := Some (Fin 50), cfg_stop := Some (Fin 50)\<rparr>"

definition zero_breakpoint_cfg :: Config where
  "zero_breakpoint_cfg = example_cfg\<lparr>cfg_breakpoint := Some (Fin 0)\<rparr>"

definition narrow_window :: Window where
  "narrow_window = (example_window 0)\<lparr>innerWidth := 500\<rparr>"

text \<open>
  An element of height 0 in a window of height 0, with a start bias of \<open>-100\<close> so that the
  scroll position 450 lies between the bounds 400 and 500.
\<close>

definition degenerate_element :: Element where
  "degenerate_element =
     \<lparr>offsetTop = 500, offsetHeight = 0,
      style = \<lparr>backgroundPosition = '''', transition = ''''\<rparr>\<rparr>"

definition degenerate_window :: Window where
  "degenerate_window =
     \<lparr>innerHeight = 0, innerWidth = 1280, pageYOffset = 450, listeners = [], closures = 0\<rparr>"

definition degenerate_cfg :: Config where
  "degenerate_cfg =
     example_cfg\<lparr>cfg_element := Some degenerate_element, cfg_start := Some (Fin (- 100))\<rparr>"

definition degenerate_world :: world where
  "degenerate_world =
     \<lparr>window = degenerate_window,
      self = example_this\<lparr>element := degenerate_element, start := Fin 400, stop := Fin 500\<rparr>\<rparr>"

text \<open>
  An element whose \<open>offsetTop\<close> equals the height of the window, configured with the
  biases 30 and 1200.
\<close>

definition aligned_element :: Element where
  "aligned_element =
     \<lparr>offsetTop = 800, offsetHeight = 400,
      style = \<lparr>backgroundPosition = '''', transition = ''''\<rparr>\<rparr>"

definition aligned_cfg :: Config where
  "aligned_cfg =
     example_cfg\<lparr>cfg_element := Some aligned_element, cfg_start := Some (Fin 30),
       cfg_stop := Some (Fin 1200)\<rparr>"

section \<open>Auxiliary facts\<close>

lemmas example_defs =
  example_element_def example_window_def example_cfg_def example_this_def example_world_def

subsection \<open>Rounding\<close>

lemma pow2_eq: "pow2 e = power_int 2 e"
  by (simp add: pow2_def power_int_def inverse_eq_divide power_divide)

lemma pow2_pos [simp]: "0 < pow2 e"
  by (simp add: pow2_eq)

lemma pow2_add: "pow2 (d + e) = pow2 d * pow2 e"
  by (simp add: pow2_eq power_int_add)

lemma pow2_nat: "0 \<le> e \<Longrightarrow> pow2 e = of_int (2 ^ nat e)"
  by (simp add: pow2_def)

lemma pow2_mono: "d \<le> e \<Longrightarrow> pow2 d \<le> pow2 e"
  by (simp add: pow2_eq power_int_increasing)

lemma pow2_cancel: "pow2 (- e) * pow2 e = 1"
  using pow2_add [of "- e" e] by (simp add: pow2_def)

lemma divide_pow2: "x / pow2 e = x * pow2 (- e)"
  by (simp add: pow2_eq power_int_minus divide_inverse)

lemma round_half_even_of_int [simp]: "round_half_even (of_int z) = z"
  by (simp add: round_half_even_def)

lemma round_half_even_ge: "\<lfloor>x\<rfloor> \<le> round_half_even x"
  by (simp add: round_half_even_def Let_def)

lemma floor_log2_le:
  assumes "0 < a"
  shows "pow2 (floor_log2 a) \<le> a"
proof (cases "1 \<le> a")
  case True
  then have pos: "0 < \<lfloor>a\<rfloor>" by simp
  have k: "1 \<le> bitlen \<lfloor>a\<rfloor>"
    using pos by (simp add: bitlen_ge_iff_power)
  have "(2::int) ^ nat (bitlen \<lfloor>a\<rfloor> - 1) \<le> \<lfloor>a\<rfloor>"
    using bitlen_bounds [OF pos] by simp
  then have "(of_int (2 ^ nat (bitlen \<lfloor>a\<rfloor> - 1)) :: rat) \<le> of_int \<lfloor>a\<rfloor>"
    by (simp only: of_int_le_iff)
  also have "\<dots> \<le> a" by simp
  finally show ?thesis
    using True k by (simp add: floor_log2_def pow2_def)
next
  case False
  define c where "c = \<lceil>1 / a\<rceil>"
  define j where "j = bitlen (c - 1)"
  have "1 < 1 / a" using False assms by simp
  then have c2: "2 \<le> c" unfolding c_def by linarith
  then have j1: "1 \<le> j"
    unfolding j_def by (simp add: bitlen_ge_iff_power)
  have "c - 1 < 2 ^ nat j"
    using bitlen_bounds [of "c - 1"] c2 unfolding j_def by simp
  then have "c \<le> 2 ^ nat j" by simp
  then have "(of_int c :: rat) \<le> 2 ^ nat j" by simp
  moreover have "1 / a \<le> of_int c" unfolding c_def by simp
  ultimately have "1 / a \<le> 2 ^ nat j" by (rule order_trans [rotated])
  then have "1 / 2 ^ nat j \<le> a"
    using assms by (simp add: field_simps)
  then show ?thesis
    using False j1 by (simp add: floor_log2_def pow2_def c_def j_def)
qed

lemma round_pos_of_int:
  assumes "0 < a" and "a < 2 ^ 53"
  shows "round_pos (of_int a) = of_int a"
proof -
  define k where "k = bitlen a"
  have k1: "1 \<le> k" using assms unfolding k_def by (simp add: bitlen_ge_iff_power)
  have k53: "0 \<le> 53 - k" using assms unfolding k_def by (simp add: bitlen_le_iff_power)
  have fl: "floor_log2 (of_int a) = k - 1"
    using assms by (simp add: floor_log2_def k_def)
  have e: "max (floor_log2 (of_int a) - 52) (- 1074) = k - 53"
    using k1 by (simp add: fl)
  have sc: "(of_int a :: rat) / pow2 (k - 53) = of_int (a * 2 ^ nat (53 - k))"
    using pow2_nat [OF k53] by (simp add: divide_pow2)
  have "round_pos (of_int a) = of_int (a * 2 ^ nat (53 - k)) * pow2 (k - 53)"
    by (simp only: round_pos_def e Let_def sc round_half_even_of_int)
  also have "\<dots> = of_int a * (pow2 (53 - k) * pow2 (k - 53))"
    using pow2_nat [OF k53] by simp
  also have "pow2 (53 - k) * pow2 (k - 53) = 1"
    using pow2_cancel [of "k - 53"] by simp
  finally show ?thesis by simp
qed

lemma round64_of_int:
  assumes "\<bar>n\<bar> < 2 ^ 53"
  shows "round64 (of_int n) = Fin (of_int n)"
proof -
  have small: "\<not> pow2 1024 \<le> of_int a" if "a < 2 ^ 53" for a :: int
  proof -
    have "(of_int a :: rat) < of_int (2 ^ 53)" using that by (simp only: of_int_less_iff)
    also have "\<dots> = pow2 53" by (simp add: pow2_def)
    also have "\<dots> \<le> pow2 1024" by (rule pow2_mono) simp
    finally show ?thesis by simp
  qed
  consider "n = 0" | "0 < n" | "n < 0" by linarith
  then show ?thesis
  proof cases
    case 1
    then show ?thesis by (simp add: round64_def)
  next
    case 2
    then have "round_pos (of_int n) = of_int n" using assms by (intro round_pos_of_int) simp_all
    then show ?thesis using 2 small [of n] assms by (simp add: round64_def)
  next
    case 3
    then have "round_pos (of_int (- n)) = of_int (- n)"
      using assms by (intro round_pos_of_int) simp_all
    then show ?thesis using 3 small [of "- n"] assms by (simp add: round64_def)
  qed
qed

lemma round_pos_lattice: "\<exists>z. round_pos a * pow2 1074 = of_int z"
proof -
  define e where "e = max (floor_log2 a - 52) (- 1074)"
  define m where "m = round_half_even (a / pow2 e)"
  have e: "0 \<le> e + 1074" by (simp add: e_def)
  have "round_pos a * pow2 1074 = of_int m * (pow2 e * pow2 1074)"
    by (simp add: round_pos_def Let_def e_def m_def)
  also have "pow2 e * pow2 1074 = of_int (2 ^ nat (e + 1074))"
    using pow2_nat [OF e] by (simp only: pow2_add)
  finally have "round_pos a * pow2 1074 = of_int (m * 2 ^ nat (e + 1074))"
    by simp
  then show ?thesis ..
qed

lemma is_double_lattice:
  assumes "is_double s"
  shows "\<exists>z. s * pow2 1074 = of_int z"
proof -
  from assms have "s = 0 \<or> s = round_pos s \<or> s = - round_pos (- s)"
    by (auto simp: is_double_def round64_def split: if_splits)
  then consider "s = 0" | "s = round_pos s" | "s = - round_pos (- s)" by blast
  then show ?thesis
  proof cases
    case 1
    then show ?thesis by (intro exI [of _ 0]) simp
  next
    case 2
    then show ?thesis using round_pos_lattice [of s] by simp
  next
    case 3
    obtain z where "round_pos (- s) * pow2 1074 = of_int z"
      using round_pos_lattice [of "- s"] by blast
    then have "s * pow2 1074 = of_int (- z)" using 3 by (metis mult_minus_left of_int_minus)
    then show ?thesis ..
  qed
qed

lemma round_pos_pos:
  assumes "0 < x" and "x * pow2 1074 = of_int z"
  shows "0 < round_pos x"
proof -
  define e where "e = max (floor_log2 x - 52) (- 1074)"
  define m where "m = round_half_even (x / pow2 e)"
  have "1 \<le> x / pow2 e"
  proof (cases "floor_log2 x - 52 \<le> - 1074")
    case True
    then have e: "e = - 1074" by (simp add: e_def)
    have xz: "x / pow2 e = of_int z" using assms(2) by (simp add: divide_pow2 e)
    have "0 < x / pow2 e" using assms(1) by simp
    then have "0 < z" unfolding xz by simp
    then show ?thesis unfolding xz by simp
  next
    case False
    then have "e = floor_log2 x - 52" by (simp add: e_def)
    then have "pow2 e \<le> pow2 (floor_log2 x)" by (simp add: pow2_mono)
    also have "\<dots> \<le> x" by (rule floor_log2_le [OF assms(1)])
    finally show ?thesis by (simp add: pos_le_divide_eq)
  qed
  then have "1 \<le> \<lfloor>x / pow2 e\<rfloor>" by (simp only: le_floor_iff of_int_1)
  then have m1: "1 \<le> m"
    using round_half_even_ge [of "x / pow2 e"] unfolding m_def by linarith
  then have "0 < (of_int m :: rat) * pow2 e" by simp
  then show ?thesis by (simp add: round_pos_def Let_def e_def m_def)
qed

lemma div_zero_sign:
  assumes "x * pow2 1074 = of_int z"
  shows "num_div (round64 x) (Fin 0) = inf_of_sign x"
proof -
  consider "x = 0" | "0 < x" | "x < 0" by linarith
  then show ?thesis
  proof cases
    case 1
    then show ?thesis by (simp add: round64_def inf_of_sign_def)
  next
    case 2
    from round_pos_pos [OF 2 assms] 2 show ?thesis
      by (simp add: round64_def inf_of_sign_def)
  next
    case 3
    then have p: "0 < - x" by simp
    have l: "- x * pow2 1074 = of_int (- z)" using assms by simp
    from round_pos_pos [OF p l] 3 show ?thesis
      by (simp add: round64_def inf_of_sign_def)
  qed
qed

subsection \<open>Arithmetic on the integers of the browser\<close>

lemma sint_long_bounds: "- 2147483648 \<le> sint (x :: long)" "sint x < 2147483648"
  using sint_ge [of x] sint_lt [of x] by simp_all

lemma num_add_int:
  assumes "\<bar>x + y\<bar> < 2 ^ 53"
  shows "num_add (Fin (of_int x)) (Fin (of_int y)) = Fin (of_int x + of_int y)"
  using round64_of_int [OF assms] by simp

lemma num_sub_int:
  assumes "\<bar>x - y\<bar> < 2 ^ 53"
  shows "num_sub (Fin (of_int x)) (Fin (of_int y)) = Fin (of_int x - of_int y)"
  using round64_of_int [OF assms] by (simp add: num_sub_def)

lemma long_add: "num_add (ofLong a) (ofLong b) = Fin (of_int (sint a) + of_int (sint b))"
proof -
  have "\<bar>sint a + sint b\<bar> < 2 ^ 53"
    using sint_long_bounds [of a] sint_long_bounds [of b] by simp
  then show ?thesis unfolding ofLong_def by (rule num_add_int)
qed

lemma long_sub: "num_sub (ofLong a) (ofLong b) = Fin (of_int (sint a) - of_int (sint b))"
proof -
  have "\<bar>sint a - sint b\<bar> < 2 ^ 53"
    using sint_long_bounds [of a] sint_long_bounds [of b] by simp
  then show ?thesis unfolding ofLong_def by (rule num_sub_int)
qed

lemma num_le_not_less: "num_le x y \<Longrightarrow> \<not> num_less y x"
  by (cases x; cases y) auto

lemma or_default_Some_Fin: "or_default (Some (Fin x)) (Fin 0) = Fin x"
  by (simp add: or_default_def)

lemma or_default_not_NaN: "or_default x (Fin 0) \<noteq> NaN"
  by (cases x) (auto simp: or_default_def elim: truthy.elims)

lemma round64_half: "round64 (1 / 2) = Fin (1 / 2)"
  by code_simp

lemma toString_100: "toString (Fin (- 100)) = ''-100''"
  by (simp add: toString_def digits.simps)

lemma toString_150: "toString (Fin (- 150)) = ''-150''"
  by (simp add: toString_def digits.simps)

subsection \<open>The methods unfolded\<close>

lemma lowerBound_eq:
  "lowerBound st =
     Fin (of_int (sint (offsetTop (element (self st))))
           + of_int (sint (offsetHeight (element (self st)))))"
  by (simp add: lowerBound_def long_add)

lemma upperBound_eq:
  "upperBound st =
     Fin (of_int (sint (offsetTop (element (self st))))
           - of_int (sint (innerHeight (window st))))"
  by (simp add: upperBound_def long_sub)

lemma range_px_eq:
  "range_px st =
     Fin (- (of_int (sint (offsetHeight (element (self st))))
              + of_int (sint (innerHeight (window st)))))"
proof -
  let ?t = "sint (offsetTop (element (self st)))"
  let ?h = "sint (offsetHeight (element (self st)))"
  let ?w = "sint (innerHeight (window st))"
  have "\<bar>(?t - ?w) - (?t + ?h)\<bar> < 2 ^ 53"
    using sint_long_bounds [of "offsetHeight (element (self st))"]
      sint_long_bounds [of "innerHeight (window st)"] by simp
  from num_sub_int [OF this] show ?thesis
    by (simp add: range_px_def upperBound_eq lowerBound_eq)
qed

lemma getOffsetPercentage_eq:
  "getOffsetPercentage st =
     num_div (num_sub (Fin (pageYOffset (window st)))
                (Fin (of_int (sint (offsetTop (element (self st))))
                       + of_int (sint (offsetHeight (element (self st)))))))
             (Fin (- (of_int (sint (offsetHeight (element (self st))))
                       + of_int (sint (innerHeight (window st))))))"
  unfolding getOffsetPercentage_def Let_def range_px_eq lowerBound_eq ..

lemma backgroundPosition_set [simp]:
  "backgroundPosition (style (element (self (set_backgroundPosition v st)))) = v"
  by (simp add: set_backgroundPosition_def)

lemma doMovement_from_eq:
  "doMovement_from r st =
     set_backgroundPosition
       (''center '' @ toString (num_sub (startOffset (self st))
                       (num_mul (getOffsetPercentage st) (distance (self st)))) @ ''px'') st"
  by (simp add: doMovement_from_def)

lemma doMovement_eq:
  "doMovement st =
     set_backgroundPosition
       (''center '' @ toString (num_sub (startOffset (self st))
                       (num_mul (getOffsetPercentage st) (distance (self st)))) @ ''px'') st"
  by (simp add: doMovement_def doMovement_from_eq)

subsection \<open>What each method leaves alone\<close>

lemma set_backgroundPosition_frame [simp]:
  "window (set_backgroundPosition v st) = window st"
  "startOffset (self (set_backgroundPosition v st)) = startOffset (self st)"
  "distance (self (set_backgroundPosition v st)) = distance (self st)"
  "start (self (set_backgroundPosition v st)) = start (self st)"
  "stop (self (set_backgroundPosition v st)) = stop (self st)"
  "breakpoint (self (set_backgroundPosition v st)) = breakpoint (self st)"
  "throttling (self (set_backgroundPosition v st)) = throttling (self st)"
  "cssTrans (self (set_backgroundPosition v st)) = cssTrans (self st)"
  "registerMe (self (set_backgroundPosition v st)) = registerMe (self st)"
  "offsetTop (element (self (set_backgroundPosition v st))) = offsetTop (element (self st))"
  "offsetHeight (element (self (set_backgroundPosition v st))) = offsetHeight (element (self st))"
  by (simp_all add: set_backgroundPosition_def)

lemma set_transition_frame [simp]:
  "window (set_transition v st) = window st"
  "startOffset (self (set_transition v st)) = startOffset (self st)"
  "distance (self (set_transition v st)) = distance (self st)"
  "start (self (set_transition v st)) = start (self st)"
  "stop (self (set_transition v st)) = stop (self st)"
  "breakpoint (self (set_transition v st)) = breakpoint (self st)"
  "throttling (self (set_transition v st)) = throttling (self st)"
  "cssTrans (self (set_transition v st)) = cssTrans (self st)"
  "registerMe (self (set_transition v st)) = registerMe (self st)"
  "offsetTop (element (self (set_transition v st))) = offsetTop (element (self st))"
  "offsetHeight (element (self (set_transition v st))) = offsetHeight (element (self st))"
  by (simp_all add: set_transition_def)

lemma doMovement_frame [simp]:
  "window (doMovement st) = window st"
  "startOffset (self (doMovement st)) = startOffset (self st)"
  "distance (self (doMovement st)) = distance (self st)"
  "start (self (doMovement st)) = start (self st)"
  "stop (self (doMovement st)) = stop (self st)"
  "breakpoint (self (doMovement st)) = breakpoint (self st)"
  "throttling (self (doMovement st)) = throttling (self st)"
  "cssTrans (self (doMovement st)) = cssTrans (self st)"
  "registerMe (self (doMovement st)) = registerMe (self st)"
  "offsetTop (element (self (doMovement st))) = offsetTop (element (self st))"
  "offsetHeight (element (self (doMovement st))) = offsetHeight (element (self st))"
  by (simp_all add: doMovement_eq)

lemma parallax_frame [simp]:
  "window (parallax st) = window st"
  "startOffset (self (parallax st)) = startOffset (self st)"
  "distance (self (parallax st)) = distance (self st)"
  "start (self (parallax st)) = start (self st)"
  "stop (self (parallax st)) = stop (self st)"
  "breakpoint (self (parallax st)) = breakpoint (self st)"
  "throttling (self (parallax st)) = throttling (self st)"
  "cssTrans (self (parallax st)) = cssTrans (self st)"
  "registerMe (self (parallax st)) = registerMe (self st)"
  "offsetTop (element (self (parallax st))) = offsetTop (element (self st))"
  "offsetHeight (element (self (parallax st))) = offsetHeight (element (self st))"
  by (simp_all add: parallax_def Let_def)

lemma addEventListener_frame [simp]:
  "innerHeight (addEventListener ev l w) = innerHeight w"
  "innerWidth (addEventListener ev l w) = innerWidth w"
  "pageYOffset (addEventListener ev l w) = pageYOffset w"
  "closures (addEventListener ev l w) = closures w"
  by (simp_all add: addEventListener_def)

lemma removeEventListener_frame [simp]:
  "innerHeight (removeEventListener ev l w) = innerHeight w"
  "innerWidth (removeEventListener ev l w) = innerWidth w"
  "pageYOffset (removeEventListener ev l w) = pageYOffset w"
  "closures (removeEventListener ev l w) = closures w"
  by (simp_all add: removeEventListener_def)

lemma register_frame [simp]:
  "self (register st) = self st"
  "innerHeight (window (register st)) = innerHeight (window st)"
  "innerWidth (window (register st)) = innerWidth (window st)"
  "pageYOffset (window (register st)) = pageYOffset (window st)"
  by (simp_all add: register_def)

lemma unregister_frame [simp]:
  "self (unregister st) = self st"
  "innerHeight (window (unregister st)) = innerHeight (window st)"
  "innerWidth (window (unregister st)) = innerWidth (window st)"
  "pageYOffset (window (unregister st)) = pageYOffset (window st)"
  by (simp_all add: unregister_def)

lemma handler_frame [simp]:
  "self (handler st) = self st"
  "innerHeight (window (handler st)) = innerHeight (window st)"
  "innerWidth (window (handler st)) = innerWidth (window st)"
  "pageYOffset (window (handler st)) = pageYOffset (window st)"
  by (simp_all add: handler_def)

lemma handleRegisters_frame [simp]:
  "self (handleRegisters st) = self st"
  "innerHeight (window (handleRegisters st)) = innerHeight (window st)"
  "innerWidth (window (handleRegisters st)) = innerWidth (window st)"
  "pageYOffset (window (handleRegisters st)) = pageYOffset (window st)"
  by (simp_all add: handleRegisters_def Let_def)

lemma init_frame [simp]:
  "startOffset (self (init st)) = startOffset (self st)"
  "distance (self (init st)) = distance (self st)"
  "start (self (init st)) = start (self st)"
  "stop (self (init st)) = stop (self st)"
  "breakpoint (self (init st)) = breakpoint (self st)"
  "throttling (self (init st)) = throttling (self st)"
  "cssTrans (self (init st)) = cssTrans (self st)"
  "registerMe (self (init st)) = registerMe (self st)"
  "offsetTop (element (self (init st))) = offsetTop (element (self st))"
  "offsetHeight (element (self (init st))) = offsetHeight (element (self st))"
  "innerHeight (window (init st)) = innerHeight (window st)"
  "innerWidth (window (init st)) = innerWidth (window st)"
  "pageYOffset (window (init st)) = pageYOffset (window st)"
  by (simp_all add: init_def Let_def)

subsection \<open>Registration of the scroll listener\<close>

lemma scroll_registered_handler:
  assumes "distinct (listeners (window st))"
  shows "scroll_registered (handler st)
           = num_greater (ofLong (innerWidth (window st))) (breakpoint (self st))"
  using assms
  by (auto simp: scroll_registered_def handler_def register_def unregister_def
      addEventListener_def removeEventListener_def)

lemma scroll_registered_init:
  "scroll_registered (init st) = scroll_registered (handler st)"
  by (auto simp: scroll_registered_def init_def handleRegisters_def Let_def addEventListener_def)

subsection \<open>The constructor unfolded\<close>

lemma Parallax_Some:
  assumes "cfg_element cfg = Some el"
  shows "Parallax w cfg =
           Inr (cfg\<lparr>cfg_start := Some (start (new_object w cfg el)),
                    cfg_stop := Some (stop (new_object w cfg el))\<rparr>,
                init \<lparr>window = w\<lparr>closures := Suc (closures w)\<rparr>,
                      self = new_object w cfg el\<rparr>)"
  using assms
  by (simp add: Parallax_def new_object_def toNumber_def start_bound_def stop_bound_def
      long_add long_sub Let_def)

lemma Parallax_None:
  assumes "cfg_element cfg = None"
  shows "Parallax w cfg = Inl (Throw ''parallax: at least element must be given'')"
  using assms by (simp add: Parallax_def)

lemma bounds_after_Parallax:
  assumes "cfg_element cfg = Some el"
  shows "bounds_after (Parallax w cfg) =
           Some (num_add (Fin (of_int (sint (offsetTop el)) - of_int (sint (innerHeight w))))
                   (or_default (cfg_start cfg) (Fin 0)),
                 Fin (of_int (sint (offsetTop el)) + of_int (sint (offsetHeight el))))"
  by (simp add: Parallax_Some [OF assms] bounds_after_def new_object_def)

lemma config_after_Parallax:
  assumes "cfg_element cfg = Some el"
  shows "config_after (Parallax w cfg) =
           Some (cfg\<lparr>cfg_start :=
                      Some (num_add (Fin (of_int (sint (offsetTop el))
                                           - of_int (sint (innerHeight w))))
                              (or_default (cfg_start cfg) (Fin 0))),
                     cfg_stop :=
                      Some (Fin (of_int (sint (offsetTop el))
                                  + of_int (sint (offsetHeight el))))\<rparr>)"
  by (simp add: Parallax_Some [OF assms] config_after_def new_object_def)

lemma breakpoint_after_Parallax:
  assumes "cfg_element cfg = Some el"
  shows "breakpoint_after (Parallax w cfg) = Some (or_default (cfg_breakpoint cfg) (Fin 1024))"
  by (simp add: Parallax_Some [OF assms] breakpoint_after_def new_object_def)

lemma registered_after_Parallax:
  assumes "cfg_element cfg = Some el" and "distinct (listeners w)"
  shows "registered_after (Parallax w cfg) =
           Some (num_greater (ofLong (innerWidth w)) (or_default (cfg_breakpoint cfg) (Fin 1024)))"
  using assms(2)
  by (simp add: Parallax_Some [OF assms(1)] registered_after_def scroll_registered_init
      scroll_registered_handler new_object_def)

lemma bounds_after_Parallax_twice:
  assumes "cfg_element cfg = Some el"
  shows "bounds_after (Parallax_twice w cfg) =
           Some (num_add (Fin (of_int (sint (offsetTop el)) - of_int (sint (innerHeight w))))
                   (or_default
                      (Some (num_add (Fin (of_int (sint (offsetTop el))
                                            - of_int (sint (innerHeight w))))
                               (or_default (cfg_start cfg) (Fin 0))))
                      (Fin 0)),
                 Fin (of_int (sint (offsetTop el)) + of_int (sint (offsetHeight el))))"
proof -
  let ?st = "init \<lparr>window = w\<lparr>closures := Suc (closures w)\<rparr>, self = new_object w cfg el\<rparr>"
  let ?cfg' = "cfg\<lparr>cfg_start := Some (start (new_object w cfg el)),
                    cfg_stop := Some (stop (new_object w cfg el))\<rparr>"
  let ?cfg2 = "?cfg'\<lparr>cfg_element := Some (element (self ?st))\<rparr>"
  have tw: "Parallax_twice w cfg = Parallax (window ?st) ?cfg2"
    by (simp add: Parallax_twice_def Parallax_Some [OF assms(1)])
  have el2: "cfg_element ?cfg2 = Some (element (self ?st))"
    by simp
  have geo: "offsetTop (element (self ?st)) = offsetTop el"
    "offsetHeight (element (self ?st)) = offsetHeight el"
    "innerHeight (window ?st) = innerHeight w"
    by (simp_all add: new_object_def)
  have st1: "cfg_start ?cfg2 =
      Some (num_add (Fin (of_int (sint (offsetTop el)) - of_int (sint (innerHeight w))))
              (or_default (cfg_start cfg) (Fin 0)))"
    by (simp add: new_object_def)
  show ?thesis
    unfolding tw bounds_after_Parallax [OF el2] geo st1 ..
qed

lemma start_bound_eq:
  "start_bound w el b =
     num_add (Fin (of_int (sint (offsetTop el)) - of_int (sint (innerHeight w)))) b"
  by (simp add: start_bound_def long_sub)

lemma stop_bound_eq:
  "stop_bound el = Fin (of_int (sint (offsetTop el)) + of_int (sint (offsetHeight el)))"
  by (simp add: stop_bound_def long_add)

subsection \<open>The concrete inputs evaluated\<close>

lemma round64_numeral:
  "(numeral n :: int) < 2 ^ 53 \<Longrightarrow> round64 (numeral n) = Fin (numeral n)"
  using round64_of_int [of "numeral n"] by simp

lemma round64_neg_numeral:
  "(numeral n :: int) < 2 ^ 53 \<Longrightarrow> round64 (- numeral n) = Fin (- numeral n)"
  using round64_of_int [of "- numeral n"] by simp

lemma round64_0 [simp]: "round64 0 = Fin 0"
  by (simp add: round64_def)

lemma round64_1 [simp]: "round64 1 = Fin 1"
  using round64_of_int [of 1] by simp

lemma round64_seven_twelfths: "round64 (7 / 12) = Fin (5254199565265579 / 9007199254740992)"
  by code_simp

lemmas eval_simps =
  round64_numeral round64_neg_numeral round64_half num_sub_def ofLong_def

lemmas method_defs =
  init_def handleRegisters_def handler_def register_def unregister_def addEventListener_def
  removeEventListener_def parallax_def doMovement_def doMovement_from_def
  getOffsetPercentage_def range_px_def upperBound_def lowerBound_def
  set_backgroundPosition_def set_transition_def num_greater_def start_bound_def stop_bound_def
  or_default_def or_false_def toNumber_def inf_of_sign_def toString_def digits.simps

lemma ratio_example_800: "getOffsetPercentage (example_world 800) = Fin (1 / 2)"
  by (simp add: getOffsetPercentage_eq example_defs eval_simps)

lemma ratio_example_700:
  "getOffsetPercentage (example_world 700) = Fin (5254199565265579 / 9007199254740992)"
  by (simp add: getOffsetPercentage_eq example_defs eval_simps round64_seven_twelfths)

lemma ratio_example_biased: "getOffsetPercentage example_biased = Fin (1 / 2)"
  by (simp add: getOffsetPercentage_eq example_biased_def example_defs eval_simps)

lemma offset_example_biased: "num_sub (Fin (- 50)) (num_mul (Fin (1 / 2)) (Fin 200)) = Fin (- 150)"
  by (simp add: eval_simps)

lemma startOffset_example [simp]: "startOffset (self (example_world s)) = Fin 0"
  by (simp add: example_defs)

lemma distance_example [simp]: "distance (self (example_world s)) = Fin 200"
  by (simp add: example_defs)

lemma doMovement_example_800:
  "backgroundPosition (style (element (self (doMovement (example_world 800))))) = ''center -100px''"
  by (simp add: doMovement_eq ratio_example_800 eval_simps toString_100)

lemma doMovement_example_biased:
  "backgroundPosition (style (element (self (doMovement example_biased)))) = ''center -150px''"
proof -
  have "startOffset (self example_biased) = Fin (- 50)" "distance (self example_biased) = Fin 200"
    by (simp_all add: example_biased_def example_defs)
  then show ?thesis
    by (simp add: doMovement_eq ratio_example_biased eval_simps toString_150)
qed

lemma Parallax_example_800:
  "Parallax (example_window 800) example_cfg =
     Inr (example_cfg\<lparr>cfg_start := Some (Fin 200), cfg_stop := Some (Fin 1400)\<rparr>,
          \<lparr>window = (example_window 800)\<lparr>listeners :=
                       [(''scroll'', Throttled 0), (''resize'', Debounced 1)], closures := 2\<rparr>,
           self = example_this\<lparr>element := example_element\<lparr>style :=
                    \<lparr>backgroundPosition = ''center -100px'', transition = ''''\<rparr>\<rparr>\<rparr>\<rparr>)"
  by (simp add: Parallax_def example_defs method_defs eval_simps Let_def)

lemma Parallax_degenerate:
  "Parallax degenerate_window degenerate_cfg =
     Inr (degenerate_cfg\<lparr>cfg_start := Some (Fin 400), cfg_stop := Some (Fin 500)\<rparr>,
          \<lparr>window = degenerate_window\<lparr>listeners :=
                       [(''scroll'', Throttled 0), (''resize'', Debounced 1)], closures := 2\<rparr>,
           self = \<lparr>element = degenerate_element\<lparr>style :=
                               \<lparr>backgroundPosition = ''center Infinitypx'', transition = ''''\<rparr>\<rparr>,
                   startOffset = Fin 0, distance = Fin 200, start = Fin 400, stop = Fin 500,
                   breakpoint = Fin 1024, throttling = Fin 15, cssTrans = False,
                   registerMe = Throttled 0\<rparr>\<rparr>)"
  by (simp add: Parallax_def degenerate_cfg_def degenerate_window_def degenerate_element_def
      example_cfg_def method_defs eval_simps Let_def)

lemma Parallax_zero_breakpoint:
  "registered_after (Parallax narrow_window zero_breakpoint_cfg) = Some False
   \<and> breakpoint_after (Parallax narrow_window zero_breakpoint_cfg) = Some (Fin 1024)"
proof -
  have el: "cfg_element zero_breakpoint_cfg = Some example_element"
    by (simp add: zero_breakpoint_cfg_def example_cfg_def)
  have d: "distinct (listeners narrow_window)"
    by (simp add: narrow_window_def example_window_def)
  show ?thesis
    unfolding registered_after_Parallax [OF el d] breakpoint_after_Parallax [OF el]
    by (simp add: zero_breakpoint_cfg_def narrow_window_def example_defs or_default_def
        num_greater_def ofLong_def)
qed

section \<open>The activation bounds\<close>

text \<open>
  Claim C1. Construction combines the supplied start bias and the supplied stop bias, each
  0 when omitted, with the geometry of the element: the start bound is
  \<open>offsetTop - innerHeight + start bias\<close>, and the stop bound incorporates the stop bias
  likewise.

  The constructor does the first and not the second. With both biases 50 in the example the
  start bound is \<open>1000 - 800 + 50 = 250\<close>, while the stop bound is \<open>1000 + 400 = 1400\<close>,
  the value it has with no bias at all: the assignment to \<open>cfg.stop\<close> overwrites the
  bias that the line before has just defaulted and that the comment on the constructor
  documents as an offset in pixels.
\<close>

theorem stop_bias_ignored:
  "bounds_after (Parallax (example_window 0) biased_cfg) = Some (Fin 250, Fin 1400)
   \<and> bounds_after (Parallax (example_window 0) example_cfg) = Some (Fin 200, Fin 1400)"
proof -
  have "cfg_element biased_cfg = Some example_element"
    "cfg_element example_cfg = Some example_element"
    by (simp_all add: biased_cfg_def example_cfg_def)
  then show ?thesis
    by (simp add: bounds_after_Parallax)
      (simp add: biased_cfg_def example_defs or_default_def eval_simps)
qed

section \<open>The offset percentage\<close>

text \<open>
  Claim C2. For every scroll position and offset of the element, and every positive height
  of the element and of the window, \<open>getOffsetPercentage\<close> returns
  \<open>(scrollTop - (offsetTop + height)) / ((offsetTop - windowHeight) - (offsetTop + height))\<close>,
  computed in the arithmetic of the script; it is \<open>0\<close> at
  \<open>scrollTop = offsetTop + height\<close> and \<open>1\<close> at \<open>scrollTop = offsetTop - windowHeight\<close>.
\<close>

theorem getOffsetPercentage_ratio:
  assumes "pageYOffset (window st) = scrollTop"
    and "offsetTop (element (self st)) = oTop"
    and "offsetHeight (element (self st)) = height"
    and "innerHeight (window st) = windowHeight"
    and "0 < sint height" and "0 < sint windowHeight"
  shows "getOffsetPercentage st =
           num_div (num_sub (Fin scrollTop) (num_add (ofLong oTop) (ofLong height)))
             (num_sub (num_sub (ofLong oTop) (ofLong windowHeight))
                (num_add (ofLong oTop) (ofLong height)))
         \<and> (scrollTop = of_int (sint oTop) + of_int (sint height) \<longrightarrow>
              getOffsetPercentage st = Fin 0)
         \<and> (scrollTop = of_int (sint oTop) - of_int (sint windowHeight) \<longrightarrow>
              getOffsetPercentage st = Fin 1)"
proof -
  let ?r = "- (of_int (sint height) + of_int (sint windowHeight)) :: rat"
  have nz: "?r \<noteq> 0"
    using assms(5,6) by (metis add_pos_pos of_int_0_less_iff less_irrefl neg_equal_0_iff_equal)
  have expr: "getOffsetPercentage st =
           num_div (num_sub (Fin scrollTop) (num_add (ofLong oTop) (ofLong height)))
             (num_sub (num_sub (ofLong oTop) (ofLong windowHeight))
                (num_add (ofLong oTop) (ofLong height)))"
    using assms(1-4)
    by (simp add: getOffsetPercentage_def lowerBound_def upperBound_def range_px_def)
  have eq: "getOffsetPercentage st =
           num_div (num_sub (Fin scrollTop) (Fin (of_int (sint oTop) + of_int (sint height))))
             (Fin ?r)"
    using assms(1-4) by (simp add: getOffsetPercentage_eq)
  have zero: "getOffsetPercentage st = Fin 0"
    if "scrollTop = of_int (sint oTop) + of_int (sint height)"
    using nz unfolding eq that by (simp add: num_sub_def round64_def)
  have one: "getOffsetPercentage st = Fin 1"
    if s: "scrollTop = of_int (sint oTop) - of_int (sint windowHeight)"
  proof -
    have "\<bar>(sint oTop - sint windowHeight) - (sint oTop + sint height)\<bar> < 2 ^ 53"
      using sint_long_bounds [of height] sint_long_bounds [of windowHeight] by simp
    from num_sub_int [OF this]
    have "num_sub (Fin scrollTop) (Fin (of_int (sint oTop) + of_int (sint height))) = Fin ?r"
      unfolding s by simp
    moreover have "round64 (?r / ?r) = Fin 1"
      using nz round64_of_int [of 1] by simp
    ultimately show ?thesis
      using nz unfolding eq by simp
  qed
  show ?thesis using expr zero one by blast
qed

theorem getOffsetPercentage_ratio_witness:
  "getOffsetPercentage (example_world 800) = Fin (1 / 2)
   \<and> getOffsetPercentage (example_world 1400) = Fin 0
   \<and> getOffsetPercentage (example_world 200) = Fin 1
   \<and> getOffsetPercentage (example_world 700) = Fin (5254199565265579 / 9007199254740992)"
proof -
  have f: "pageYOffset (window (example_world s)) = s"
    "offsetTop (element (self (example_world s))) = 1000"
    "offsetHeight (element (self (example_world s))) = 400"
    "innerHeight (window (example_world s)) = 800" for s
    by (simp_all add: example_defs)
  have p: "0 < sint (400 :: long)" "0 < sint (800 :: long)"
    by simp_all
  have e: "(1400 :: rat) = of_int (sint (1000 :: long)) + of_int (sint (400 :: long))"
    "(200 :: rat) = of_int (sint (1000 :: long)) - of_int (sint (800 :: long))"
    by simp_all
  have a: "getOffsetPercentage (example_world 1400) = Fin 0"
    using getOffsetPercentage_ratio [of "example_world 1400" 1400 1000 400 800] f p e
    by blast
  have b: "getOffsetPercentage (example_world 200) = Fin 1"
    using getOffsetPercentage_ratio [of "example_world 200" 200 1000 400 800] f p e
    by blast
  show ?thesis
    using a b by (simp add: ratio_example_800 ratio_example_700)
qed

section \<open>The movement\<close>

text \<open>
  Claim C3, as stated: the offset written by \<open>doMovement\<close> is
  \<open>startOffset - ratio * distance\<close>, and in the example (\<open>offsetTop = 1000\<close>,
  \<open>offsetHeight = 400\<close>, \<open>innerHeight = 800\<close>, \<open>scrollTop = 800\<close>, defaults) the ratio is
  0.75 and the style written is \<open>center -150px\<close>.

  The example is miscalculated: the upper bound is \<open>1000 - 800 = 200\<close>, not 600, so the
  ratio is \<open>(800 - 1400) / (200 - 1400) = 0.5\<close>. Neither the ratio 0.75 nor the style
  \<open>center -150px\<close> is what the script produces there, whether \<open>doMovement\<close> is called on
  the constructed object or by the constructor itself.
\<close>

theorem scenario_ratio_counterexample:
  "getOffsetPercentage (example_world 800) \<noteq> Fin (3 / 4)
   \<and> backgroundPosition (style (element (self (doMovement (example_world 800)))))
       \<noteq> ''center -150px''
   \<and> style_after (Parallax (example_window 800) example_cfg) \<noteq> Some ''center -150px''"
  by (simp add: ratio_example_800 doMovement_example_800 Parallax_example_800 style_after_def)

text \<open>
  Claim C3, amended. The offset written by \<open>doMovement\<close> is linear in the ratio:
  \<open>startOffset - ratio * distance\<close>, computed in the arithmetic of the script, where
  ratio is the value of \<open>getOffsetPercentage\<close> (with \<open>startOffset = -50\<close>,
  \<open>distance = 200\<close> and ratio 0.5 the offset is \<open>-150\<close>); in the example the ratio is 0.5
  and the style written is \<open>center -100px\<close>.
\<close>

theorem doMovement_linear:
  "backgroundPosition (style (element (self (doMovement st)))) =
     ''center '' @ toString (num_sub (startOffset (self st))
                     (num_mul (getOffsetPercentage st) (distance (self st)))) @ ''px''
   \<and> (startOffset (self st) = Fin a \<and> distance (self st) = Fin d
        \<and> getOffsetPercentage st = Fin r \<longrightarrow>
      backgroundPosition (style (element (self (doMovement st)))) =
        ''center '' @ toString (num_sub (Fin a) (num_mul (Fin r) (Fin d))) @ ''px'')
   \<and> num_sub (Fin (- 50)) (num_mul (Fin (1 / 2)) (Fin 200)) = Fin (- 150)
   \<and> getOffsetPercentage (example_world 800) = Fin (1 / 2)
   \<and> backgroundPosition (style (element (self (doMovement (example_world 800)))))
       = ''center -100px''
   \<and> style_after (Parallax (example_window 800) example_cfg) = Some ''center -100px''"
proof -
  have gen: "backgroundPosition (style (element (self (doMovement st)))) =
     ''center '' @ toString (num_sub (startOffset (self st))
                     (num_mul (getOffsetPercentage st) (distance (self st)))) @ ''px''"
    by (simp add: doMovement_eq)
  have lin: "startOffset (self st) = Fin a \<and> distance (self st) = Fin d
        \<and> getOffsetPercentage st = Fin r \<longrightarrow>
      backgroundPosition (style (element (self (doMovement st)))) =
        ''center '' @ toString (num_sub (Fin a) (num_mul (Fin r) (Fin d))) @ ''px''"
    by (simp add: doMovement_eq)
  have ex: "style_after (Parallax (example_window 800) example_cfg) = Some ''center -100px''"
    by (simp add: Parallax_example_800 style_after_def)
  show ?thesis
    by (intro conjI gen lin offset_example_biased ratio_example_800 doMovement_example_800 ex)
qed

theorem doMovement_linear_witness:
  "startOffset (self example_biased) = Fin (- 50) \<and> distance (self example_biased) = Fin 200
   \<and> getOffsetPercentage example_biased = Fin (1 / 2)
   \<and> backgroundPosition (style (element (self (doMovement example_biased)))) = ''center -150px''"
proof -
  have so: "startOffset (self example_biased) = Fin (- 50)"
    and d: "distance (self example_biased) = Fin 200"
    by (simp_all add: example_biased_def example_defs)
  have "backgroundPosition (style (element (self (doMovement example_biased)))) =
          ''center '' @ toString (num_sub (Fin (- 50)) (num_mul (Fin (1 / 2)) (Fin 200))) @ ''px''"
    using doMovement_linear [of example_biased "- 50" 200 "1 / 2"] so d ratio_example_biased
    by blast
  then show ?thesis
    using so d ratio_example_biased by (simp only: offset_example_biased toString_150) simp
qed

text \<open>
  Claim C9. The computation of \<open>relativeOffset\<close> in \<open>doMovement\<close> is dead code: whatever
  value the variable holds, what is written to the background position is
  \<open>startOffset - getOffsetPercentage() * distance\<close>, and \<open>doMovement\<close> does what its
  remainder does from any value of the variable.
\<close>

theorem relativeOffset_dead:
  "doMovement_from r st =
     set_backgroundPosition
       (''center '' @ toString (num_sub (startOffset (self st))
                       (num_mul (getOffsetPercentage st) (distance (self st)))) @ ''px'') st
   \<and> doMovement_from r st = doMovement_from r' st
   \<and> doMovement st = doMovement_from r st"
  by (simp add: doMovement_def doMovement_from_eq)

section \<open>The scroll range\<close>

text \<open>
  Claim C4. \<open>parallax\<close> calls \<open>doMovement\<close> exactly when the scroll position lies
  strictly between \<open>start\<close> and \<open>stop\<close>. At a scroll position less than or equal to
  \<open>start\<close>, or greater than or equal to \<open>stop\<close>, it does nothing, and the background
  position of the element stays as it was.
\<close>

theorem parallax_bounds:
  "(num_less (start (self st)) (Fin (pageYOffset (window st)))
      \<and> num_less (Fin (pageYOffset (window st))) (stop (self st))
      \<longrightarrow> parallax st = doMovement st)
   \<and> (num_le (Fin (pageYOffset (window st))) (start (self st))
        \<or> num_le (stop (self st)) (Fin (pageYOffset (window st)))
      \<longrightarrow> parallax st = st
          \<and> backgroundPosition (style (element (self (parallax st))))
              = backgroundPosition (style (element (self st))))
   \<and> (\<not> (num_less (start (self st)) (Fin (pageYOffset (window st)))
           \<and> num_less (Fin (pageYOffset (window st))) (stop (self st)))
      \<longrightarrow> parallax st = st)"
  by (auto simp: parallax_def num_greater_def dest: num_le_not_less)

theorem parallax_bounds_witness:
  "parallax (example_world 800) = doMovement (example_world 800)
   \<and> parallax (example_world 200) = example_world 200
   \<and> parallax (example_world 1400) = example_world 1400
   \<and> parallax (example_world 100) = example_world 100
   \<and> backgroundPosition (style (element (self (parallax (example_world 800))))) = ''center -100px''
   \<and> backgroundPosition (style (element (self (parallax (example_world 1400))))) = ''''"
proof -
  have f: "start (self (example_world s)) = Fin 200" "stop (self (example_world s)) = Fin 1400"
    "pageYOffset (window (example_world s)) = s"
    "backgroundPosition (style (element (self (example_world s)))) = []" for s
    by (simp_all add: example_defs)
  have a: "parallax (example_world 800) = doMovement (example_world 800)"
    using parallax_bounds [of "example_world 800"] by (simp add: f)
  have b: "parallax (example_world 200) = example_world 200"
    using parallax_bounds [of "example_world 200"] by (simp add: f)
  have c: "parallax (example_world 1400) = example_world 1400"
    using parallax_bounds [of "example_world 1400"] by (simp add: f)
  have d: "parallax (example_world 100) = example_world 100"
    using parallax_bounds [of "example_world 100"] by (simp add: f)
  show ?thesis
    by (simp add: a b c d f doMovement_example_800)
qed

section \<open>The stored bounds\<close>

text \<open>
  Claim C5. After construction the stored stop bound is \<open>offsetTop + offsetHeight\<close> of
  the element as read by the constructor, and none of \<open>parallax\<close>, \<open>doMovement\<close>,
  \<open>register\<close>, \<open>unregister\<close> and the resize handler changes the stored start or stop
  bound.
\<close>

theorem bounds_fixed:
  "(cfg_element cfg = Some el \<longrightarrow>
      (\<exists>cfg' st. Parallax w cfg = Inr (cfg', st)
         \<and> stop (self st) = Fin (of_int (sint (offsetTop el)) + of_int (sint (offsetHeight el)))))
   \<and> start (self (parallax st)) = start (self st)
   \<and> stop (self (parallax st)) = stop (self st)
   \<and> start (self (doMovement st)) = start (self st)
   \<and> stop (self (doMovement st)) = stop (self st)
   \<and> start (self (register st)) = start (self st)
   \<and> stop (self (register st)) = stop (self st)
   \<and> start (self (unregister st)) = start (self st)
   \<and> stop (self (unregister st)) = stop (self st)
   \<and> start (self (handler st)) = start (self st)
   \<and> stop (self (handler st)) = stop (self st)"
  by (simp add: Parallax_Some new_object_def)

theorem bounds_fixed_witness:
  "cfg_element example_cfg = Some example_element
   \<and> (\<exists>cfg' st. Parallax (example_window 800) example_cfg = Inr (cfg', st)
         \<and> stop (self st) = Fin 1400)"
  using bounds_fixed [of example_cfg example_element "example_window 800"]
  by (simp add: example_cfg_def example_element_def)

section \<open>Division by zero\<close>

text \<open>
  Claim C6. \<open>getOffsetPercentage\<close> divides without a guard. Its divisor \<open>range\<close> is
  \<open>-(offsetHeight + windowHeight)\<close>: when that sum is not zero the division is by a value
  other than zero; when the height of the element and of the window are both zero the
  divisor is zero and the ratio is an infinity or NaN, by the sign of
  \<open>scrollTop - offsetTop\<close>. That case can be reached: the constructor itself runs into it
  on the degenerate input and writes \<open>center Infinitypx\<close>.
\<close>

theorem division_unguarded:
  "range_px st
     = Fin (- (of_int (sint (offsetHeight (element (self st))))
                + of_int (sint (innerHeight (window st)))))
   \<and> getOffsetPercentage st =
       num_div (num_sub (Fin (pageYOffset (window st)))
                  (Fin (of_int (sint (offsetTop (element (self st))))
                         + of_int (sint (offsetHeight (element (self st)))))))
               (range_px st)
   \<and> (sint (offsetHeight (element (self st))) + sint (innerHeight (window st)) \<noteq> 0 \<longrightarrow>
        range_px st \<noteq> Fin 0 \<and> (\<exists>r. range_px st = Fin r \<and> r \<noteq> 0))
   \<and> (offsetHeight (element (self st)) = 0 \<and> innerHeight (window st) = 0 \<longrightarrow>
        range_px st = Fin 0
        \<and> getOffsetPercentage st \<in> {PInf, NInf, NaN}
        \<and> (is_double (pageYOffset (window st)) \<longrightarrow>
             getOffsetPercentage st
               = inf_of_sign (pageYOffset (window st)
                               - of_int (sint (offsetTop (element (self st)))))))
   \<and> bounds_after (Parallax degenerate_window degenerate_cfg) = Some (Fin 400, Fin 500)
   \<and> style_after (Parallax degenerate_window degenerate_cfg) = Some ''center Infinitypx''"
proof -
  let ?s = "pageYOffset (window st)"
  let ?t = "sint (offsetTop (element (self st)))"
  let ?h = "sint (offsetHeight (element (self st)))"
  let ?w = "sint (innerHeight (window st))"
  have rng: "range_px st = Fin (- (of_int ?h + of_int ?w))"
    by (rule range_px_eq)
  have expr: "getOffsetPercentage st =
       num_div (num_sub (Fin ?s) (Fin (of_int ?t + of_int ?h))) (range_px st)"
    unfolding rng by (rule getOffsetPercentage_eq)
  have nz: "range_px st \<noteq> Fin 0 \<and> (\<exists>r. range_px st = Fin r \<and> r \<noteq> 0)"
    if "?h + ?w \<noteq> 0"
  proof -
    have "(of_int ?h :: rat) + of_int ?w \<noteq> 0"
      using that by (metis of_int_add of_int_eq_0_iff)
    then show ?thesis unfolding rng by simp
  qed
  have zero: "range_px st = Fin 0
        \<and> getOffsetPercentage st \<in> {PInf, NInf, NaN}
        \<and> (is_double ?s \<longrightarrow> getOffsetPercentage st = inf_of_sign (?s - of_int ?t))"
    if z: "offsetHeight (element (self st)) = 0 \<and> innerHeight (window st) = 0"
  proof -
    have r0: "range_px st = Fin 0" unfolding rng using z by simp
    have g: "getOffsetPercentage st = num_div (round64 (?s - of_int ?t)) (Fin 0)"
      unfolding expr r0 using z by (simp add: num_sub_def)
    have mem: "num_div x (Fin 0) \<in> {PInf, NInf, NaN}" for x
      by (cases x) (simp_all add: inf_of_sign_def)
    have sgn: "getOffsetPercentage st = inf_of_sign (?s - of_int ?t)" if dbl: "is_double ?s"
    proof -
      obtain k where k: "?s * pow2 1074 = of_int k"
        using is_double_lattice [OF dbl] by blast
      have "(?s - of_int ?t) * pow2 1074 = of_int (k - ?t * 2 ^ nat 1074)"
        using k pow2_nat [of 1074] by (simp add: algebra_simps)
      then show ?thesis unfolding g by (rule div_zero_sign)
    qed
    show ?thesis using r0 mem sgn unfolding g by blast
  qed
  have reach: "bounds_after (Parallax degenerate_window degenerate_cfg) = Some (Fin 400, Fin 500)
      \<and> style_after (Parallax degenerate_window degenerate_cfg) = Some ''center Infinitypx''"
    unfolding Parallax_degenerate
    by (simp add: bounds_after_def style_after_def)
  show ?thesis
    using rng expr nz zero reach by blast
qed

theorem division_unguarded_witness:
  "range_px (example_world 800) = Fin (- 1200)
   \<and> range_px (example_world 800) \<noteq> Fin 0
   \<and> range_px degenerate_world = Fin 0
   \<and> getOffsetPercentage degenerate_world = NInf
   \<and> backgroundPosition (style (element (self (parallax degenerate_world))))
       = ''center Infinitypx''"
proof -
  have f: "offsetHeight (element (self (example_world 800))) = 400"
    "innerHeight (window (example_world 800)) = 800"
    by (simp_all add: example_defs)
  have g: "offsetHeight (element (self degenerate_world)) = 0"
    "innerHeight (window degenerate_world) = 0"
    "offsetTop (element (self degenerate_world)) = 500"
    "pageYOffset (window degenerate_world) = 450"
    "start (self degenerate_world) = Fin 400" "stop (self degenerate_world) = Fin 500"
    "startOffset (self degenerate_world) = Fin 0" "distance (self degenerate_world) = Fin 200"
    by (simp_all add: degenerate_world_def degenerate_window_def degenerate_element_def
        example_this_def)
  have d: "is_double 450"
    by (simp add: is_double_def round64_numeral)
  have a: "range_px (example_world 800) = Fin (- 1200)"
    using division_unguarded [of "example_world 800"] by (simp add: f)
  have "sint (400 :: long) + sint (800 :: long) \<noteq> 0"
    by simp
  then have a': "range_px (example_world 800) \<noteq> Fin 0"
    using division_unguarded [of "example_world 800"] unfolding f by blast
  have "range_px degenerate_world = Fin 0
        \<and> getOffsetPercentage degenerate_world = inf_of_sign (450 - of_int (sint (500 :: long)))"
    using division_unguarded [of degenerate_world] d unfolding g by blast
  then have b: "range_px degenerate_world = Fin 0 \<and> getOffsetPercentage degenerate_world = NInf"
    by (simp add: inf_of_sign_def)
  have c: "parallax degenerate_world = doMovement degenerate_world"
    by (simp add: parallax_def g num_greater_def)
  show ?thesis
    using a a' b by (simp add: c doMovement_eq g num_sub_def inf_of_sign_def toString_def)
qed

section \<open>Construction\<close>

text \<open>
  Claim C7. Construction throws if and only if the configuration supplies no element. With
  an element it succeeds, and every other option that is omitted gets its default:
  \<open>startOffset\<close> 0, \<open>distance\<close> 200, \<open>breakpoint\<close> 1024, \<open>throttling\<close> 15,
  \<open>cssTrans\<close> false.
\<close>

theorem construction_defaults:
  "((\<exists>e. Parallax w cfg = Inl e) \<longleftrightarrow> cfg_element cfg = None)
   \<and> (cfg_element cfg = Some el \<longrightarrow>
        (\<exists>cfg' st. Parallax w cfg = Inr (cfg', st)
           \<and> (cfg_startOffset cfg = None \<longrightarrow> startOffset (self st) = Fin 0)
           \<and> (cfg_distance cfg = None \<longrightarrow> distance (self st) = Fin 200)
           \<and> (cfg_breakpoint cfg = None \<longrightarrow> breakpoint (self st) = Fin 1024)
           \<and> (cfg_throttling cfg = None \<longrightarrow> throttling (self st) = Fin 15)
           \<and> (cfg_cssTrans cfg = None \<longrightarrow> cssTrans (self st) = False)))"
proof (cases "cfg_element cfg")
  case None
  then show ?thesis by (simp add: Parallax_None)
next
  case (Some x)
  then show ?thesis
    by (simp add: Parallax_Some new_object_def or_default_def or_false_def)
qed

theorem construction_defaults_witness:
  "Parallax (example_window 800) omitted_cfg
     = Inl (Throw ''parallax: at least element must be given'')
   \<and> (\<exists>cfg' st. Parallax (example_window 800) example_cfg = Inr (cfg', st)
         \<and> startOffset (self st) = Fin 0 \<and> distance (self st) = Fin 200
         \<and> breakpoint (self st) = Fin 1024 \<and> throttling (self st) = Fin 15
         \<and> cssTrans (self st) = False)"
proof -
  have "cfg_element omitted_cfg = None"
    by (simp add: omitted_cfg_def)
  then have a: "Parallax (example_window 800) omitted_cfg
                  = Inl (Throw ''parallax: at least element must be given'')"
    using construction_defaults [of "example_window 800" omitted_cfg]
    by (simp add: Parallax_def)
  have "cfg_element example_cfg = Some example_element" "cfg_startOffset example_cfg = None"
    "cfg_distance example_cfg = None" "cfg_breakpoint example_cfg = None"
    "cfg_throttling example_cfg = None" "cfg_cssTrans example_cfg = None"
    by (simp_all add: example_cfg_def)
  then have b: "\<exists>cfg' st. Parallax (example_window 800) example_cfg = Inr (cfg', st)
         \<and> startOffset (self st) = Fin 0 \<and> distance (self st) = Fin 200
         \<and> breakpoint (self st) = Fin 1024 \<and> throttling (self st) = Fin 15
         \<and> cssTrans (self st) = False"
    using construction_defaults [of "example_window 800" example_cfg example_element]
    by simp
  show ?thesis using a b by simp
qed

text \<open>
  Claim C10, as stated: construction overwrites \<open>cfg.start\<close> and \<open>cfg.stop\<close> in place
  with the computed bounds, so that afterwards the configuration no longer holds the
  original biases and a second construction from the same object produces different bounds.

  The overwriting happens, but not the two consequences on every input. When \<open>offsetTop\<close>
  of the element equals the height of the window, the start bound is the start bias itself;
  with a stop bias that happens to be \<open>offsetTop + offsetHeight\<close> the configuration
  comes back as it went in, and a second construction yields the bounds of the first.
\<close>

theorem cfg_mutation_counterexample:
  "config_after (Parallax (example_window 0) aligned_cfg) = Some aligned_cfg
   \<and> bounds_after (Parallax_twice (example_window 0) aligned_cfg)
       = bounds_after (Parallax (example_window 0) aligned_cfg)"
proof -
  have el: "cfg_element aligned_cfg = Some aligned_element"
    by (simp add: aligned_cfg_def)
  show ?thesis
    unfolding config_after_Parallax [OF el] bounds_after_Parallax [OF el]
      bounds_after_Parallax_twice [OF el]
    by (simp add: aligned_cfg_def aligned_element_def example_defs or_default_def eval_simps)
qed

text \<open>
  Claim C10, amended. Construction overwrites \<open>cfg.start\<close> and \<open>cfg.stop\<close> in place
  with the computed bounds (start: \<open>offsetTop - innerHeight + bias\<close>, stop:
  \<open>offsetTop + offsetHeight\<close>) before copying them, so a second construction from the
  same object takes the first start bound for its start bias. In the example the
  configuration holds 200 and 1400 afterwards and the second construction has the start
  bound 400 where the first had 200. But when \<open>offsetTop\<close> equals \<open>innerHeight\<close> the
  second construction produces the same bounds as the first, and the configuration may
  still hold the original biases.
\<close>

theorem cfg_mutation:
  assumes "cfg_element cfg = Some el"
  shows "config_after (Parallax w cfg) =
           Some (cfg\<lparr>cfg_start := Some (start_bound w el (or_default (cfg_start cfg) (Fin 0))),
                     cfg_stop := Some (stop_bound el)\<rparr>)
         \<and> bounds_after (Parallax w cfg) =
             Some (start_bound w el (or_default (cfg_start cfg) (Fin 0)), stop_bound el)
         \<and> bounds_after (Parallax_twice w cfg) =
             Some (start_bound w el
                     (or_default (Some (start_bound w el (or_default (cfg_start cfg) (Fin 0))))
                        (Fin 0)),
                   stop_bound el)
         \<and> (offsetTop el = innerHeight w \<and> is_number (or_default (cfg_start cfg) (Fin 0)) \<longrightarrow>
              bounds_after (Parallax_twice w cfg) = bounds_after (Parallax w cfg))
         \<and> config_after (Parallax (example_window 800) example_cfg)
             = Some (example_cfg\<lparr>cfg_start := Some (Fin 200), cfg_stop := Some (Fin 1400)\<rparr>)
         \<and> bounds_after (Parallax (example_window 800) example_cfg) = Some (Fin 200, Fin 1400)
         \<and> bounds_after (Parallax_twice (example_window 800) example_cfg)
             = Some (Fin 400, Fin 1400)"
proof -
  let ?b = "or_default (cfg_start cfg) (Fin 0)"
  have cfg: "config_after (Parallax w cfg) =
           Some (cfg\<lparr>cfg_start := Some (start_bound w el ?b), cfg_stop := Some (stop_bound el)\<rparr>)"
    unfolding start_bound_eq stop_bound_eq by (rule config_after_Parallax [OF assms])
  have one: "bounds_after (Parallax w cfg) = Some (start_bound w el ?b, stop_bound el)"
    unfolding start_bound_eq stop_bound_eq by (rule bounds_after_Parallax [OF assms])
  have two: "bounds_after (Parallax_twice w cfg) =
             Some (start_bound w el (or_default (Some (start_bound w el ?b)) (Fin 0)),
                   stop_bound el)"
    unfolding start_bound_eq stop_bound_eq by (rule bounds_after_Parallax_twice [OF assms])
  have same: "bounds_after (Parallax_twice w cfg) = bounds_after (Parallax w cfg)"
    if a: "offsetTop el = innerHeight w \<and> is_number ?b"
  proof -
    have sb: "start_bound w el x = num_add (Fin 0) x" for x
      using a by (simp add: start_bound_eq)
    have "num_add (Fin 0) (or_default (Some (num_add (Fin 0) ?b)) (Fin 0)) = num_add (Fin 0) ?b"
    proof (cases ?b)
      case (Fin q)
      then have "round64 q = Fin q" using a by (simp add: is_number_def is_double_def)
      then show ?thesis using Fin by (simp add: or_default_Some_Fin)
    next
      case NaN
      then show ?thesis using or_default_not_NaN [of "cfg_start cfg"] by simp
    qed (simp_all add: or_default_def)
    then show ?thesis unfolding one two sb by simp
  qed
  have el: "cfg_element example_cfg = Some example_element"
    by (simp add: example_cfg_def)
  have ex: "config_after (Parallax (example_window 800) example_cfg)
             = Some (example_cfg\<lparr>cfg_start := Some (Fin 200), cfg_stop := Some (Fin 1400)\<rparr>)
         \<and> bounds_after (Parallax (example_window 800) example_cfg) = Some (Fin 200, Fin 1400)
         \<and> bounds_after (Parallax_twice (example_window 800) example_cfg)
             = Some (Fin 400, Fin 1400)"
    unfolding config_after_Parallax [OF el] bounds_after_Parallax [OF el]
      bounds_after_Parallax_twice [OF el]
    by (simp add: example_defs or_default_def eval_simps)
  show ?thesis using cfg one two same ex by blast
qed

theorem cfg_mutation_witness:
  "cfg_element aligned_cfg = Some aligned_element
   \<and> offsetTop aligned_element = innerHeight (example_window 0)
   \<and> bounds_after (Parallax (example_window 0) aligned_cfg) = Some (Fin 30, Fin 1200)
   \<and> bounds_after (Parallax_twice (example_window 0) aligned_cfg) = Some (Fin 30, Fin 1200)"
proof -
  have a: "cfg_element aligned_cfg = Some aligned_element"
    "offsetTop aligned_element = innerHeight (example_window 0)"
    "or_default (cfg_start aligned_cfg) (Fin 0) = Fin 30"
    by (simp_all add: aligned_cfg_def aligned_element_def example_defs or_default_def)
  have n: "is_number (Fin 30)"
    by (simp add: is_number_def is_double_def round64_numeral)
  have b: "start_bound (example_window 0) aligned_element (Fin 30) = Fin 30"
    "stop_bound aligned_element = Fin 1200"
    by (simp_all add: start_bound_eq stop_bound_eq aligned_element_def example_defs eval_simps)
  have "bounds_after (Parallax (example_window 0) aligned_cfg) = Some (Fin 30, Fin 1200)
      \<and> bounds_after (Parallax_twice (example_window 0) aligned_cfg)
          = bounds_after (Parallax (example_window 0) aligned_cfg)"
    using cfg_mutation [OF a(1), of "example_window 0"] a(2) n unfolding a(3) b by blast
  then show ?thesis using a by simp
qed

section \<open>Listener registration\<close>

text \<open>
  Claim C8, as stated: the handler that runs at construction and on every resize registers
  the scroll listener exactly when the width of the viewport is strictly greater than the
  configured breakpoint, and unregisters it when the width is less than or equal to it.

  The handler compares with the breakpoint stored in the object, and the constructor stores
  1024 in place of a configured breakpoint of 0. Constructed with the breakpoint 0 in a
  window 500 pixels wide, the object does not register its scroll listener although the
  width is greater than 0.
\<close>

theorem configured_breakpoint_counterexample:
  "cfg_breakpoint zero_breakpoint_cfg = Some (Fin 0)
   \<and> num_greater (ofLong (innerWidth narrow_window)) (Fin 0)
   \<and> registered_after (Parallax narrow_window zero_breakpoint_cfg) = Some False
   \<and> breakpoint_after (Parallax narrow_window zero_breakpoint_cfg) = Some (Fin 1024)"
  using Parallax_zero_breakpoint
  by (simp add: zero_breakpoint_cfg_def narrow_window_def example_window_def num_greater_def
      ofLong_def)

text \<open>
  Claim C8, amended. The handler that runs at construction and on every resize registers
  the scroll listener exactly when the width of the viewport is strictly greater than the
  breakpoint stored in the object, and unregisters it when the width is less than or equal
  to it. The stored breakpoint is the configured one, unless that is omitted, 0 or NaN:
  then it is 1024.
\<close>

theorem handler_breakpoint:
  "(num_greater (ofLong (innerWidth (window st))) (breakpoint (self st)) \<longrightarrow>
      handler st = register st \<and> scroll_registered (handler st))
   \<and> (num_le (ofLong (innerWidth (window st))) (breakpoint (self st)) \<longrightarrow>
      handler st = unregister st)
   \<and> (\<not> num_greater (ofLong (innerWidth (window st))) (breakpoint (self st)) \<longrightarrow>
      handler st = unregister st)
   \<and> (distinct (listeners (window st)) \<longrightarrow>
      (scroll_registered (handler st)
        \<longleftrightarrow> num_greater (ofLong (innerWidth (window st))) (breakpoint (self st))))
   \<and> (cfg_element cfg = Some el \<longrightarrow>
        breakpoint_after (Parallax w cfg) = Some (or_default (cfg_breakpoint cfg) (Fin 1024))
        \<and> (cfg_breakpoint cfg = Some b \<and> truthy b \<longrightarrow>
             breakpoint_after (Parallax w cfg) = Some b)
        \<and> (cfg_breakpoint cfg = None \<or> cfg_breakpoint cfg = Some (Fin 0)
             \<or> cfg_breakpoint cfg = Some NaN \<longrightarrow>
             breakpoint_after (Parallax w cfg) = Some (Fin 1024))
        \<and> (distinct (listeners w) \<longrightarrow>
             registered_after (Parallax w cfg) =
               Some (num_greater (ofLong (innerWidth w))
                       (or_default (cfg_breakpoint cfg) (Fin 1024)))))"
proof -
  have h: "(num_greater (ofLong (innerWidth (window st))) (breakpoint (self st)) \<longrightarrow>
      handler st = register st \<and> scroll_registered (handler st))
   \<and> (num_le (ofLong (innerWidth (window st))) (breakpoint (self st)) \<longrightarrow>
      handler st = unregister st)
   \<and> (\<not> num_greater (ofLong (innerWidth (window st))) (breakpoint (self st)) \<longrightarrow>
      handler st = unregister st)
   \<and> (distinct (listeners (window st)) \<longrightarrow>
      (scroll_registered (handler st)
        \<longleftrightarrow> num_greater (ofLong (innerWidth (window st))) (breakpoint (self st))))"
    by (auto simp: scroll_registered_def handler_def register_def unregister_def
        addEventListener_def removeEventListener_def num_greater_def dest: num_le_not_less)
  have c: "breakpoint_after (Parallax w cfg) = Some (or_default (cfg_breakpoint cfg) (Fin 1024))
        \<and> (cfg_breakpoint cfg = Some b \<and> truthy b \<longrightarrow>
             breakpoint_after (Parallax w cfg) = Some b)
        \<and> (cfg_breakpoint cfg = None \<or> cfg_breakpoint cfg = Some (Fin 0)
             \<or> cfg_breakpoint cfg = Some NaN \<longrightarrow>
             breakpoint_after (Parallax w cfg) = Some (Fin 1024))
        \<and> (distinct (listeners w) \<longrightarrow>
             registered_after (Parallax w cfg) =
               Some (num_greater (ofLong (innerWidth w))
                       (or_default (cfg_breakpoint cfg) (Fin 1024))))"
    if el: "cfg_element cfg = Some el"
    using registered_after_Parallax [OF el]
    by (auto simp: breakpoint_after_Parallax [OF el] or_default_def)
  show ?thesis using h c by blast
qed

theorem handler_breakpoint_witness:
  "handler (example_resized 1025) = register (example_resized 1025)
   \<and> scroll_registered (handler (example_resized 1025))
   \<and> handler (example_resized 1024) = unregister (example_resized 1024)
   \<and> \<not> scroll_registered (handler (example_resized 1024))
   \<and> handler (example_resized 800) = unregister (example_resized 800)
   \<and> \<not> scroll_registered (handler (example_resized 800))
   \<and> breakpoint_after (Parallax (example_window 0) example_cfg) = Some (Fin 1024)
   \<and> registered_after (Parallax (example_window 0) example_cfg) = Some True
   \<and> breakpoint_after (Parallax narrow_window (example_cfg\<lparr>cfg_breakpoint := Some (Fin 480)\<rparr>))
       = Some (Fin 480)
   \<and> registered_after (Parallax narrow_window (example_cfg\<lparr>cfg_breakpoint := Some (Fin 480)\<rparr>))
       = Some True
   \<and> registered_after (Parallax narrow_window zero_breakpoint_cfg) = Some False"
proof -
  have f: "breakpoint (self (example_resized wd)) = Fin 1024"
    "innerWidth (window (example_resized wd)) = wd"
    "distinct (listeners (window (example_resized wd)))" for wd
    by (simp_all add: example_resized_def example_this_def)
  have g: "num_greater (ofLong 1025) (Fin 1024)" "num_le (ofLong 1024) (Fin 1024)"
    "\<not> num_greater (ofLong 1024) (Fin 1024)" "\<not> num_greater (ofLong 800) (Fin 1024)"
    by (simp_all add: num_greater_def ofLong_def)
  have a: "handler (example_resized 1025) = register (example_resized 1025)
           \<and> scroll_registered (handler (example_resized 1025))"
    using handler_breakpoint [of "example_resized 1025"] g unfolding f by blast
  have b: "handler (example_resized 1024) = unregister (example_resized 1024)
           \<and> \<not> scroll_registered (handler (example_resized 1024))"
    using handler_breakpoint [of "example_resized 1024"] g f(3) unfolding f(1,2) by blast
  have c: "handler (example_resized 800) = unregister (example_resized 800)
           \<and> \<not> scroll_registered (handler (example_resized 800))"
    using handler_breakpoint [of "example_resized 800"] g f(3) unfolding f(1,2) by blast
  let ?cfg = "example_cfg\<lparr>cfg_breakpoint := Some (Fin 480)\<rparr>"
  have e: "cfg_element example_cfg = Some example_element" "cfg_breakpoint example_cfg = None"
    "cfg_element ?cfg = Some example_element" "cfg_breakpoint ?cfg = Some (Fin 480)"
    "truthy (Fin 480)" "cfg_element zero_breakpoint_cfg = Some example_element"
    "cfg_breakpoint zero_breakpoint_cfg = Some (Fin 0)"
    "distinct (listeners (example_window 0))" "distinct (listeners narrow_window)"
    "innerWidth (example_window 0) = 1280" "innerWidth narrow_window = 500"
    by (simp_all add: example_cfg_def zero_breakpoint_cfg_def narrow_window_def
        example_window_def)
  have d1: "breakpoint_after (Parallax (example_window 0) example_cfg) = Some (Fin 1024)
      \<and> registered_after (Parallax (example_window 0) example_cfg) =
          Some (num_greater (ofLong 1280) (or_default None (Fin 1024)))"
    using handler_breakpoint [of _ example_cfg example_element "example_window 0"] e(1,2,8)
    unfolding e(10) by (metis e(2))
  have d2: "breakpoint_after (Parallax narrow_window ?cfg) = Some (Fin 480)
      \<and> registered_after (Parallax narrow_window ?cfg) =
          Some (num_greater (ofLong 500) (or_default (Some (Fin 480)) (Fin 1024)))"
    using handler_breakpoint [of _ ?cfg example_element narrow_window "Fin 480"] e(3,4,5,9)
    unfolding e(11) by (metis e(4))
  have d3: "registered_after (Parallax narrow_window zero_breakpoint_cfg) =
          Some (num_greater (ofLong 500) (or_default (Some (Fin 0)) (Fin 1024)))"
    using handler_breakpoint [of _ zero_breakpoint_cfg example_element narrow_window] e(6,7,9)
    unfolding e(11) by (metis e(7))
  have v: "num_greater (ofLong 1280) (or_default None (Fin 1024))"
    "num_greater (ofLong 500) (or_default (Some (Fin 480)) (Fin 1024))"
    "\<not> num_greater (ofLong 500) (or_default (Some (Fin 0)) (Fin 1024))"
    by (simp_all add: or_default_def num_greater_def ofLong_def)
  have d1': "breakpoint_after (Parallax (example_window 0) example_cfg) = Some (Fin 1024)
      \<and> registered_after (Parallax (example_window 0) example_cfg) = Some True"
    using d1 v(1) by simp
  have d2': "breakpoint_after (Parallax narrow_window ?cfg) = Some (Fin 480)
      \<and> registered_after (Parallax narrow_window ?cfg) = Some True"
    using d2 v(2) by simp
  have d3': "registered_after (Parallax narrow_window zero_breakpoint_cfg) = Some False"
    using d3 v(3) by simp
  show ?thesis
    using a b c d1' d2' d3' by blast
qed

end
